theory Spec2Isabelle
  imports Complex_Main
begin

section \<open>Price discovery and aggregation engine (scrapper.py, region_model.py)\<close>

text \<open>
  Conventions of the embedding.
  \<^item> A Python \<open>float\<close> is modelled as a \<open>real\<close>: arithmetic is exact, there is no
    rounding, overflow, infinity or NaN. Every statement below is about this idealisation.
  \<^item> A Python \<open>str\<close> is a \<open>string\<close> of 8-bit characters; \<open>str.lower\<close> and the
    character classes of \<open>re\<close> are modelled on ASCII.
  \<^item> A raised exception is a value \<open>Inl e\<close> of a sum type; \<open>None\<close> is \<open>None\<close>.
\<close>

datatype py_error = ZeroDivisionError | AttributeError

subsection \<open>Strings\<close>

definition lower_char :: "char \<Rightarrow> char" where
  "lower_char c =
     (case map_of (zip ''ABCDEFGHIJKLMNOPQRSTUVWXYZ'' ''abcdefghijklmnopqrstuvwxyz'') c of
        None \<Rightarrow> c
      | Some d \<Rightarrow> d)"

text \<open>\<open>s.lower()\<close>\<close>

definition lower :: "string \<Rightarrow> string" where
  "lower s = map lower_char s"

fun startswith :: "string \<Rightarrow> string \<Rightarrow> bool" where
  "startswith s [] = True"
| "startswith [] (c # cs) = False"
| "startswith (d # ds) (c # cs) = (d = c \<and> startswith ds cs)"

text \<open>\<open>sub in s\<close> on strings: \<open>sub\<close> occurs in \<open>s\<close> as a contiguous substring.\<close>

fun contains :: "string \<Rightarrow> string \<Rightarrow> bool" where
  "contains [] sub = startswith [] sub"
| "contains (d # ds) sub = (startswith (d # ds) sub \<or> contains ds sub)"

text \<open>\<open>any(x in s for x in keywords)\<close>\<close>

definition any_in :: "string list \<Rightarrow> string \<Rightarrow> bool" where
  "any_in keywords s = list_ex (contains s) keywords"

text \<open>\<open>s.replace(' ', '+')\<close> and \<open>s.replace(' ', '%20')\<close>, \<open>s.replace(',', '')\<close>\<close>

definition replace_char :: "char \<Rightarrow> string \<Rightarrow> string \<Rightarrow> string" where
  "replace_char old new s = concat (map (\<lambda>c. if c = old then new else [c]) s)"

subsection \<open>Lists\<close>

text \<open>
  \<open>xs[i:j]\<close> with Python's treatment of negative and out-of-range bounds: a negative
  bound counts from the end, and both bounds are clamped to \<open>0 .. len(xs)\<close>.
\<close>

definition py_bound :: "nat \<Rightarrow> int \<Rightarrow> nat" where
  "py_bound n i = (if i < 0 then nat (max (int n + i) 0) else min (nat i) n)"

definition py_slice :: "'a list \<Rightarrow> int \<Rightarrow> int \<Rightarrow> 'a list" where
  "py_slice xs i j = drop (py_bound (length xs) i) (take (py_bound (length xs) j) xs)"

subsection \<open>\<open>RealTimeScraper._filter_prices_by_product_type\<close>\<close>

definition filter_prices_by_product_type :: "real list \<Rightarrow> string \<Rightarrow> real list" where
  "filter_prices_by_product_type prices item_name =
     (let item_lower = lower item_name;
          filtered_prices =
            (if any_in [''coke'', ''coca cola'', ''cola'', ''soda'', ''drink'', ''beverage''] item_lower
             then
               (if \<not> any_in [''pack'', ''case'', ''12'', ''24'', ''family'', ''bulk''] item_lower
                then
                  (let single_item_prices = [p \<leftarrow> prices. 0.50 \<le> p \<and> p \<le> 5.00]
                   in if single_item_prices \<noteq> [] then single_item_prices else prices)
                else prices)
             else if contains item_lower ''chip''
             then
               (let filtered =
                      (if contains item_lower ''family'' \<or> contains item_lower ''large''
                       then [p \<leftarrow> prices. 2.50 \<le> p \<and> p \<le> 10.00]
                       else [p \<leftarrow> prices. 1.00 \<le> p \<and> p \<le> 7.00])
                in if filtered = [] then prices else filtered)
             else if contains item_lower ''chocolate''
             then
               (if \<not> any_in [''pack'', ''case'', ''multi''] item_lower
                then
                  (let single_item_prices = [p \<leftarrow> prices. 0.50 \<le> p \<and> p \<le> 5.00]
                   in if single_item_prices \<noteq> [] then single_item_prices else prices)
                else prices)
             else prices)
      in if filtered_prices \<noteq> [] then filtered_prices else prices)"

subsection \<open>Product categories and envelopes (spec sections 3 and 4.5)\<close>

text \<open>
  The source has no category type: a category is the branch of the \<open>if/elif\<close> chain of
  \<open>_filter_prices_by_product_type\<close> that an item name takes. \<open>classify\<close> names these
  branches with the spec's category names, keeping the source's conditions and their order;
  \<open>spec_envelope\<close> is the spec's category table (\<open>None\<close> for "unfiltered") and
  \<open>spec_filter\<close> the spec's filter rule.
\<close>

datatype ProductCategory =
    beverage_single | beverage_bulk | snack_regular | snack_family
  | confection_single | confection_multi | generic

definition classify :: "string \<Rightarrow> ProductCategory" where
  "classify item_name =
     (let item_lower = lower item_name
      in if any_in [''coke'', ''coca cola'', ''cola'', ''soda'', ''drink'', ''beverage''] item_lower
         then (if \<not> any_in [''pack'', ''case'', ''12'', ''24'', ''family'', ''bulk''] item_lower
               then beverage_single else beverage_bulk)
         else if contains item_lower ''chip''
         then (if contains item_lower ''family'' \<or> contains item_lower ''large''
               then snack_family else snack_regular)
         else if contains item_lower ''chocolate''
         then (if \<not> any_in [''pack'', ''case'', ''multi''] item_lower
               then confection_single else confection_multi)
         else generic)"

fun spec_envelope :: "ProductCategory \<Rightarrow> (real \<times> real) option" where
  "spec_envelope beverage_single = Some (0.50, 5.00)"
| "spec_envelope beverage_bulk = None"
| "spec_envelope snack_regular = Some (1.00, 7.00)"
| "spec_envelope snack_family = Some (2.50, 10.00)"
| "spec_envelope confection_single = Some (0.50, 5.00)"
| "spec_envelope confection_multi = None"
| "spec_envelope generic = None"

definition restrict_to :: "real \<times> real \<Rightarrow> real list \<Rightarrow> real list" where
  "restrict_to bounds pool = [p \<leftarrow> pool. fst bounds \<le> p \<and> p \<le> snd bounds]"

fun spec_filter :: "real list \<Rightarrow> (real \<times> real) option \<Rightarrow> real list" where
  "spec_filter pool None = pool"
| "spec_filter pool (Some bounds) =
     (if restrict_to bounds pool = [] then pool else restrict_to bounds pool)"

subsection \<open>Search-term expansion (\<open>fetch_price_data\<close>, lines 338 to 367)\<close>

text \<open>The list \<open>search_terms\<close> as it stands when the loop over the terms begins.\<close>

definition search_terms :: "string \<Rightarrow> string list" where
  "search_terms item_name =
     (let item_lower = lower item_name;
          t0 = [item_name];
          t1 =
            (if any_in [''coke'', ''coca cola'', ''cola''] item_lower
                \<and> \<not> contains item_lower ''coca cola''
             then
               (if \<not> any_in [''pack'', ''case'', ''12'', ''24''] item_lower
                then t0 @ [''coca cola 20 oz'', ''coca cola can'', ''coca cola bottle'']
                else t0) @ [''coca cola'', ''coca cola 2 liter'']
             else if contains item_lower ''coca cola''
             then t0 @ [''coca cola 2 liter'', ''coca cola 20 oz'', ''coca cola can'', ''coke'']
             else if contains item_lower ''soda'' \<or> contains item_lower ''pop''
             then t0 @ [''soda 2 liter'']
             else t0);
          t2 =
            (if contains item_lower ''chip''
             then
               (if \<not> contains item_lower ''bag'' \<and> \<not> contains item_lower ''family''
                then t1 @ [item_name @ '' bag'']
                else t1) @ [''potato chips'']
             else t1);
          t3 =
            (if contains item_lower ''chocolate''
             then
               (if \<not> contains item_lower ''bar''
                then t2 @ [item_name @ '' bar'']
                else t2) @ [''chocolate bar'']
             else t2)
      in t3)"

text \<open>\<open>search_terms[:3]\<close>: the terms the loop iterates over.\<close>

definition expand :: "string \<Rightarrow> string list" where
  "expand item_name = take 3 (search_terms item_name)"

subsection \<open>Aggregation (\<open>fetch_price_data\<close>, lines 397 to 414)\<close>

definition round_half_even :: "real \<Rightarrow> int" where
  "round_half_even x =
     (let f = \<lfloor>x\<rfloor>; d = x - of_int f
      in if d < 1 / 2 then f
         else if 1 / 2 < d then f + 1
         else if even f then f else f + 1)"

text \<open>\<open>round(x, 2)\<close>: to the nearest multiple of 0.01, a tie going to the even one.\<close>

definition py_round2 :: "real \<Rightarrow> real" where
  "py_round2 x = of_int (round_half_even (x * 100)) / 100"

text \<open>Lines 404 to 407, on the sorted list.\<close>

definition trim_outliers :: "real list \<Rightarrow> real list" where
  "trim_outliers all_prices =
     (if length all_prices > 4
      then
        (let trim = length all_prices div 5
         in if trim > 0 then py_slice all_prices (int trim) (- int trim) else all_prices)
      else all_prices)"

text \<open>\<open>sum(xs) / len(xs)\<close>\<close>

definition average :: "real list \<Rightarrow> py_error + real" where
  "average xs =
     (if length xs = 0 then Inl ZeroDivisionError else Inr (sum_list xs / real (length xs)))"

text \<open>Lines 403 to 412: sort, trim, average, round.\<close>

definition aggregate :: "real list \<Rightarrow> py_error + real" where
  "aggregate all_prices =
     (case average (trim_outliers (sort all_prices)) of
        Inl e \<Rightarrow> Inl e
      | Inr avg_price \<Rightarrow> Inr (py_round2 avg_price))"

text \<open>Lines 398 to 414: what \<open>fetch_price_data\<close> returns for the pool it has collected.\<close>

definition process_prices :: "real list \<Rightarrow> string \<Rightarrow> py_error + real option" where
  "process_prices all_prices item_name =
     (if all_prices \<noteq> []
      then
        (case aggregate (filter_prices_by_product_type all_prices item_name) of
           Inl e \<Rightarrow> Inl e
         | Inr v \<Rightarrow> Inr (Some v))
      else Inr None)"

subsection \<open>Regular expressions of the extractor\<close>

text \<open>\<open>\d\<close> and \<open>\s\<close> on ASCII text.\<close>

definition is_digit :: "char \<Rightarrow> bool" where
  "is_digit c = (c \<in> set ''0123456789'')"

definition is_space :: "char \<Rightarrow> bool" where
  "is_space c =
     (c \<in> set [CHR '' '', CHR 0x09, CHR 0x0A, CHR 0x0B, CHR 0x0C, CHR 0x0D,
                CHR 0x1C, CHR 0x1D, CHR 0x1E, CHR 0x1F])"

text \<open>
  One attempt of \<open>\$?\s*(\d+\.?\d{0,2})\<close> at the start of \<open>s\<close>: the captured group
  and the text after the match, or \<open>None\<close>. Every quantifier is greedy, and no
  backtracking can turn a failure into a match: the only mandatory item is the first
  digit, and giving back a dollar sign or a space never puts a digit in its place.
\<close>

definition match_price :: "string \<Rightarrow> (string \<times> string) option" where
  "match_price s =
     (let s1 = (case s of c # cs \<Rightarrow> if c = CHR ''$'' then cs else s | [] \<Rightarrow> s);
          s2 = dropWhile is_space s1;
          ds = takeWhile is_digit s2;
          s3 = dropWhile is_digit s2
      in if ds = [] then None
         else
           (let dot = (case s3 of c # cs \<Rightarrow> if c = CHR ''.'' then [c] else [] | [] \<Rightarrow> []);
                s4 = drop (length dot) s3;
                frac = takeWhile is_digit (take 2 s4)
            in Some (ds @ dot @ frac, drop (length frac) s4)))"

text \<open>
  One attempt of \<open>\$\s*(\d+\.\d{2})\<close> at the start of \<open>s\<close>. Here too giving back
  digits or spaces cannot help: the character after the digits must be the dot.
\<close>

definition match_dollar_price :: "string \<Rightarrow> (string \<times> string) option" where
  "match_dollar_price s =
     (case s of
        [] \<Rightarrow> None
      | c # cs \<Rightarrow>
          if c \<noteq> CHR ''$'' then None
          else
            (let s2 = dropWhile is_space cs;
                 ds = takeWhile is_digit s2;
                 s3 = dropWhile is_digit s2
             in if ds = [] then None
                else
                  (case s3 of
                     d # f1 # f2 # rest \<Rightarrow>
                       if d = CHR ''.'' \<and> is_digit f1 \<and> is_digit f2
                       then Some (ds @ [d, f1, f2], rest)
                       else None
                   | _ \<Rightarrow> None)))"

text \<open>
  \<open>re.findall\<close> for a pattern with one group whose matches are never empty: scan from
  the left, after a match continue behind it, otherwise move on by one character. The
  first argument counts the characters still inside the last match.
\<close>

fun findall_from :: "(string \<Rightarrow> (string \<times> string) option) \<Rightarrow> nat \<Rightarrow> string \<Rightarrow> string list" where
  "findall_from m skip [] = []"
| "findall_from m (Suc skip) (c # cs) = findall_from m skip cs"
| "findall_from m 0 (c # cs) =
     (case m (c # cs) of
        None \<Rightarrow> findall_from m 0 cs
      | Some (g, rest) \<Rightarrow> g # findall_from m (length cs - length rest) cs)"

definition findall :: "(string \<Rightarrow> (string \<times> string) option) \<Rightarrow> string \<Rightarrow> string list" where
  "findall m s = findall_from m 0 s"


subsection \<open>The page handed to the extractor\<close>

text \<open>
  A value decoded by \<open>json.loads\<close>. \<open>JObj\<close> lists the items of the decoded \<open>dict\<close>,
  whose keys are distinct; a number is an \<open>int\<close> or a \<open>float\<close>, read as a real.
\<close>

datatype json =
    JNull | JBool bool | JNum real | JStr string | JArr "json list"
  | JObj "(string \<times> json) list"

text \<open>
  What \<open>_extract_prices_from_soup\<close> reads of a \<open>BeautifulSoup\<close> object:
  \<^item> \<open>select sel\<close>: the texts (\<open>get_text()\<close>) of the elements \<open>soup.select(sel)\<close>
    returns, in document order;
  \<^item> \<open>ld_json\<close>: for each \<open>script\<close> of type \<open>application/ld+json\<close>, the value
    \<open>json.loads(script.string)\<close> returns, or \<open>None\<close> where that call raises;
  \<^item> \<open>all_text\<close>: \<open>soup.get_text()\<close>.
\<close>

record soup =
  select :: "string \<Rightarrow> string list"
  ld_json :: "json option list"
  all_text :: string

text \<open>
  \<open>float(x)\<close>, \<open>None\<close> where it raises. \<open>float\<close> of a string is Python's own parser
  and is a parameter \<open>fl\<close> of the model, \<open>None\<close> standing for \<open>ValueError\<close>.
\<close>

fun py_float :: "(string \<Rightarrow> real option) \<Rightarrow> json \<Rightarrow> real option" where
  "py_float fl (JNum r) = Some r"
| "py_float fl (JStr s) = fl s"
| "py_float fl (JBool b) = Some (if b then 1 else 0)"
| "py_float fl JNull = None"
| "py_float fl (JArr xs) = None"
| "py_float fl (JObj kvs) = None"

text \<open>
  \<open>float\<close> on an unsigned decimal literal \<open>digits\<close>, \<open>digits.\<close> or \<open>digits.digits\<close>,
  the only strings the two patterns capture; any other string is refused here. It
  instantiates \<open>fl\<close> in the concrete runs below.
\<close>

definition digit_val :: "char \<Rightarrow> nat" where
  "digit_val c = length (takeWhile (\<lambda>d. d \<noteq> c) ''0123456789'')"

definition nat_of_digits :: "string \<Rightarrow> nat" where
  "nat_of_digits ds = foldl (\<lambda>n c. 10 * n + digit_val c) 0 ds"

definition decimal_float :: "string \<Rightarrow> real option" where
  "decimal_float s =
     (let ip = takeWhile is_digit s; r = dropWhile is_digit s
      in if ip = [] then None
         else
           (case r of
              [] \<Rightarrow> Some (real (nat_of_digits ip))
            | c # fs \<Rightarrow>
                if c = CHR ''.'' \<and> list_all is_digit fs
                then Some (real (nat_of_digits ip) + real (nat_of_digits fs) / 10 ^ length fs)
                else None))"

subsection \<open>\<open>RealTimeScraper._extract_prices_from_soup\<close>\<close>

definition price_selectors :: "string list" where
  \<open>price_selectors =
     [''[data-automation-id="product-price"]'',
      ''.price-current'',
      ''[itemprop="price"]'',
      ''[data-testid="price"]'',
      ''.price'',
      ''[class*="price"]'',
      ''[class*="Price"]'',
      ''span[class*="currency"]'',
      ''[data-price]'']\<close>

text \<open>
  \<open>try: price = float(x); if 0.50 < price < 200: prices.append(price); except: continue\<close>,
  for the outcome \<open>x\<close> of the conversion.
\<close>

definition admit :: "real option \<Rightarrow> real list \<Rightarrow> real list" where
  "admit x prices =
     (case x of
        None \<Rightarrow> prices
      | Some price \<Rightarrow> if 0.50 < price \<and> price < 200 then prices @ [price] else prices)"

text \<open>\<open>for price_str in price_matches\<close> (lines 139 to 145) and \<open>for match in matches[:20]\<close>.\<close>

fun admit_strings :: "(string \<Rightarrow> real option) \<Rightarrow> string list \<Rightarrow> real list \<Rightarrow> real list" where
  "admit_strings fl [] prices = prices"
| "admit_strings fl (price_str # rest) prices = admit_strings fl rest (admit (fl price_str) prices)"

text \<open>\<open>for elem in price_elements[:15]\<close> (lines 135 to 145), over the texts of the elements.\<close>

fun scan_elements :: "(string \<Rightarrow> real option) \<Rightarrow> string list \<Rightarrow> real list \<Rightarrow> real list" where
  "scan_elements fl [] prices = prices"
| "scan_elements fl (text # rest) prices =
     scan_elements fl rest
       (admit_strings fl (findall match_price (replace_char CHR '','' [] text)) prices)"

text \<open>\<open>for selector in price_selectors\<close> (lines 133 to 145).\<close>

fun scan_selectors :: "(string \<Rightarrow> real option) \<Rightarrow> soup \<Rightarrow> string list \<Rightarrow> real list \<Rightarrow> real list" where
  "scan_selectors fl sp [] prices = prices"
| "scan_selectors fl sp (selector # rest) prices =
     scan_selectors fl sp rest (scan_elements fl (take 15 (select sp selector)) prices)"

text \<open>The body of \<open>for script in json_scripts\<close> (lines 150 to 163) for one script.\<close>

definition scan_script :: "(string \<Rightarrow> real option) \<Rightarrow> json option \<Rightarrow> real list \<Rightarrow> real list" where
  "scan_script fl script prices =
     (case script of
        Some (JObj data) \<Rightarrow>
          (case map_of data ''offers'' of
             Some (JObj offers) \<Rightarrow>
               (case map_of offers ''price'' of
                  Some v \<Rightarrow> admit (py_float fl v) prices
                | None \<Rightarrow> prices)
           | _ \<Rightarrow>
               (case map_of data ''price'' of
                  Some v \<Rightarrow> admit (py_float fl v) prices
                | None \<Rightarrow> prices))
      | _ \<Rightarrow> prices)"

fun scan_scripts :: "(string \<Rightarrow> real option) \<Rightarrow> json option list \<Rightarrow> real list \<Rightarrow> real list" where
  "scan_scripts fl [] prices = prices"
| "scan_scripts fl (script # rest) prices = scan_scripts fl rest (scan_script fl script prices)"

definition extract_prices_from_soup :: "(string \<Rightarrow> real option) \<Rightarrow> soup \<Rightarrow> real list" where
  "extract_prices_from_soup fl sp =
     (let prices = scan_selectors fl sp price_selectors [];
          prices = scan_scripts fl (ld_json sp) prices;
          matches = findall match_dollar_price (all_text sp);
          prices = admit_strings fl (take 20 matches) prices
      in prices)"


text \<open>
  A page with two structured-data scripts after one that does not parse, two elements
  carrying a \<open>data-price\<close> attribute, and prices in its text.
\<close>

definition offer_page :: soup where
  \<open>offer_page =
     \<lparr> select = (\<lambda>sel. if sel = ''[data-price]''
                 then [''$3.49'', ''was $1,250.00 now $0.50''] else []),
       ld_json = [None, Some (JObj [(''offers'', JObj [(''price'', JNum 2.99)])]),
                  Some (JObj [(''price'', JStr ''250.00'')])],
       all_text = ''Cola $3.49 was $1,250.00 now $0.50 or $199.99'' \<rparr>\<close>

text \<open>The plausibility bound of the extractor, and what one element's text contributes.\<close>

definition plausible :: "real \<Rightarrow> bool" where
  "plausible p = (0.50 < p \<and> p < 200)"


subsection \<open>The outside world\<close>

text \<open>
  The scraper reaches the network through a Selenium driver and a \<open>requests\<close> session.
  Both are parameters of the model, acting on a state \<open>'w\<close> of the outside world:
  \<^item> \<open>has_driver\<close>: \<open>self.driver\<close> is not \<open>None\<close>;
  \<^item> \<open>driver_get url\<close>: \<open>self.driver.get(url)\<close>, the pause, and the parse of
    \<open>self.driver.page_source\<close>; \<open>None\<close> where one of them raises;
  \<^item> \<open>session_get url\<close>: \<open>self.session.get(url, ...)\<close>, giving the status code and
    the parse of \<open>response.text\<close>; \<open>None\<close> where the request raises.
\<close>

record 'w env =
  has_driver :: bool
  driver_get :: "string \<Rightarrow> 'w \<Rightarrow> soup option \<times> 'w"
  session_get :: "string \<Rightarrow> 'w \<Rightarrow> (nat \<times> soup) option \<times> 'w"

subsection \<open>The source fetchers\<close>

text \<open>
  \<open>if self.driver: try: self.driver.get(url); ...; prices.extend(extract(soup)) except: pass\<close>,
  the first block of each retailer's fetcher, starting from \<open>prices = []\<close>.
\<close>

definition selenium_attempt ::
  "(string \<Rightarrow> real option) \<Rightarrow> 'w env \<Rightarrow> string \<Rightarrow> 'w \<Rightarrow> real list \<times> 'w" where
  "selenium_attempt fl env url w =
     (if has_driver env
      then
        (case driver_get env url w of
           (Some sp, w') \<Rightarrow> (extract_prices_from_soup fl sp, w')
         | (None, w') \<Rightarrow> ([], w'))
      else ([], w))"

text \<open>
  \<open>if not prices: try: response = self.session.get(url, ...);
  if response.status_code == 200: prices.extend(extract(soup)) except: pass\<close>
\<close>

definition requests_attempt ::
  "(string \<Rightarrow> real option) \<Rightarrow> 'w env \<Rightarrow> string \<Rightarrow> real list \<times> 'w \<Rightarrow> real list \<times> 'w" where
  "requests_attempt fl env url st =
     (case st of
        (prices, w) \<Rightarrow>
          if prices = []
          then
            (case session_get env url w of
               (Some (status_code, sp), w') \<Rightarrow>
                 (if status_code = 200 then extract_prices_from_soup fl sp else [], w')
             | (None, w') \<Rightarrow> ([], w'))
          else (prices, w))"

definition scrape_walmart ::
  "(string \<Rightarrow> real option) \<Rightarrow> 'w env \<Rightarrow> string \<Rightarrow> string \<Rightarrow> 'w \<Rightarrow> real list \<times> 'w" where
  "scrape_walmart fl env item_name city w =
     (let search_url = ''https://www.walmart.com/search?q='' @ replace_char CHR '' '' ''+'' item_name
      in requests_attempt fl env search_url (selenium_attempt fl env search_url w))"

definition scrape_target ::
  "(string \<Rightarrow> real option) \<Rightarrow> 'w env \<Rightarrow> string \<Rightarrow> string \<Rightarrow> 'w \<Rightarrow> real list \<times> 'w" where
  "scrape_target fl env item_name city w =
     (let search_url = ''https://www.target.com/s?searchTerm='' @ replace_char CHR '' '' ''+'' item_name
      in requests_attempt fl env search_url (selenium_attempt fl env search_url w))"

definition scrape_publix_api ::
  "(string \<Rightarrow> real option) \<Rightarrow> 'w env \<Rightarrow> string \<Rightarrow> 'w \<Rightarrow> real list \<times> 'w" where
  "scrape_publix_api fl env item_name w =
     (let instacart_url =
            ''https://www.instacart.com/store/publix/search_v3/''
              @ replace_char CHR '' '' ''%20'' item_name;
          search_url =
            ''https://www.publix.com/shop/search?query='' @ replace_char CHR '' '' ''+'' item_name
      in requests_attempt fl env search_url (selenium_attempt fl env instacart_url w))"

definition scrape_instacart ::
  "(string \<Rightarrow> real option) \<Rightarrow> 'w env \<Rightarrow> string \<Rightarrow> string \<Rightarrow> 'w \<Rightarrow> real list \<times> 'w" where
  "scrape_instacart fl env item_name city w =
     (let search_url =
            ''https://www.instacart.com/store/publix/search_v3/''
              @ replace_char CHR '' '' ''%20'' item_name
      in selenium_attempt fl env search_url w)"

definition scrape_google_shopping ::
  "(string \<Rightarrow> real option) \<Rightarrow> 'w env \<Rightarrow> string \<Rightarrow> string \<Rightarrow> 'w \<Rightarrow> real list \<times> 'w" where
  "scrape_google_shopping fl env item_name city w =
     (let search_query = item_name @ '' price '' @ city @ '' Florida grocery store'';
          search_url =
            ''https://www.google.com/search?q='' @ replace_char CHR '' '' ''+'' search_query
              @ ''&tbm=shop''
      in if has_driver env
         then
           (case driver_get env search_url w of
              (Some sp, w') \<Rightarrow> (extract_prices_from_soup fl sp, w')
            | (None, w') \<Rightarrow> ([], w'))
         else
           (case session_get env search_url w of
              (Some (status_code, sp), w') \<Rightarrow> (extract_prices_from_soup fl sp, w')
            | (None, w') \<Rightarrow> ([], w')))"

subsection \<open>\<open>RealTimeScraper.fetch_price_data\<close>\<close>

text \<open>
  The run is observed through a trace: \<open>Trying t n\<close> is written when the loop starts the
  search term \<open>t\<close> (the message of line 368), \<open>n\<close> being \<open>len(all_prices)\<close> at that
  moment; \<open>Called s args\<close> is written when the fetcher of source \<open>s\<close> has been called
  with the arguments \<open>args\<close>.
\<close>

datatype source = Walmart | Target | Instacart | Publix | GoogleShopping

datatype event = Trying string nat | Called source "string list"

type_synonym 'w run = "real list \<times> 'w \<times> event list"

text \<open>
  One pass of \<open>for source_name, scrape_func in sources\<close> (lines 378 to 386). The fetchers
  catch their own exceptions, so the \<open>except\<close> branch of line 385 is never taken.
\<close>

definition call_source ::
  "source \<Rightarrow> string list \<Rightarrow> ('w \<Rightarrow> real list \<times> 'w) \<Rightarrow> 'w run \<Rightarrow> 'w run" where
  "call_source s args scrape_func st =
     (case st of
        (all_prices, w, tr) \<Rightarrow>
          (case scrape_func w of
             (prices, w') \<Rightarrow>
               (if prices \<noteq> [] then all_prices @ prices else all_prices, w',
                tr @ [Called s args])))"

text \<open>The four sources of one search term, in the order of the list \<open>sources\<close>.\<close>

definition run_sources ::
  "(string \<Rightarrow> real option) \<Rightarrow> 'w env \<Rightarrow> string \<Rightarrow> string \<Rightarrow> 'w run \<Rightarrow> 'w run" where
  "run_sources fl env search_term city st =
     call_source Publix [search_term] (scrape_publix_api fl env search_term)
       (call_source Instacart [search_term, city] (scrape_instacart fl env search_term city)
          (call_source Target [search_term, city] (scrape_target fl env search_term city)
             (call_source Walmart [search_term, city] (scrape_walmart fl env search_term city) st)))"

text \<open>\<open>for search_term in search_terms[:3]\<close> (lines 367 to 390), with its \<open>break\<close>.\<close>

fun try_terms ::
  "(string \<Rightarrow> real option) \<Rightarrow> 'w env \<Rightarrow> string \<Rightarrow> string list \<Rightarrow> 'w run \<Rightarrow> 'w run" where
  "try_terms fl env city [] st = st"
| "try_terms fl env city (search_term # rest) (all_prices, w, tr) =
     (case run_sources fl env search_term city (all_prices, w, tr @ [Trying search_term (length all_prices)]) of
        (all_prices', w', tr') \<Rightarrow>
          if length all_prices' \<ge> 5 then (all_prices', w', tr')
          else try_terms fl env city rest (all_prices', w', tr'))"

text \<open>Lines 335 to 390: the pool, the world and the trace when the loop is left.\<close>

definition after_terms ::
  "(string \<Rightarrow> real option) \<Rightarrow> 'w env \<Rightarrow> string \<Rightarrow> string \<Rightarrow> 'w \<Rightarrow> 'w run" where
  "after_terms fl env item_name city w = try_terms fl env city (expand item_name) ([], w, [])"

text \<open>Lines 335 to 395: the same after the fallback of lines 393 to 395.\<close>

definition collect_prices ::
  "(string \<Rightarrow> real option) \<Rightarrow> 'w env \<Rightarrow> string \<Rightarrow> string \<Rightarrow> 'w \<Rightarrow> 'w run" where
  "collect_prices fl env item_name city w =
     (case after_terms fl env item_name city w of
        (all_prices, w1, tr) \<Rightarrow>
          if all_prices = []
          then
            (case scrape_google_shopping fl env item_name city w1 of
               (prices, w2) \<Rightarrow> (prices, w2, tr @ [Called GoogleShopping [item_name, city]]))
          else (all_prices, w1, tr))"

text \<open>The whole method: its result, the world it leaves and the trace of the run.\<close>

definition fetch_price_data ::
  "(string \<Rightarrow> real option) \<Rightarrow> 'w env \<Rightarrow> string \<Rightarrow> string \<Rightarrow> 'w
     \<Rightarrow> (py_error + real option) \<times> 'w \<times> event list" where
  "fetch_price_data fl env item_name city w =
     (case collect_prices fl env item_name city w of
        (all_prices, w', tr) \<Rightarrow> (process_prices all_prices item_name, w', tr))"

text \<open>Reading a run and its trace: the fallback calls, and the terms started.\<close>

definition trace_of :: "'a \<times> 'w \<times> event list \<Rightarrow> event list" where
  "trace_of st = snd (snd st)"

definition world_of :: "'a \<times> 'w \<times> event list \<Rightarrow> 'w" where
  "world_of st = fst (snd st)"

fun early_start :: "event \<Rightarrow> bool" where
  "early_start (Trying t n) = (n < 5)"
| "early_start (Called s args) = True"

fun is_fallback :: "event \<Rightarrow> bool" where
  "is_fallback (Called GoogleShopping args) = True"
| "is_fallback e = False"

fun started :: "event list \<Rightarrow> string list" where
  "started [] = []"
| "started (Trying t n # es) = t # started es"
| "started (Called s args # es) = started es"

text \<open>The events of one search term that is run to its end with an empty pool.\<close>

definition term_events :: "string \<Rightarrow> string \<Rightarrow> event list" where
  "term_events city t =
     [Trying t 0, Called Walmart [t, city], Called Target [t, city],
      Called Instacart [t, city], Called Publix [t]]"

text \<open>
  Concrete worlds for the runs below; the state of the world counts the requests made.
  \<open>offline\<close> has no driver and every request fails. In \<open>five_at_walmart\<close> there is no
  driver either, and only the Walmart search for \<open>coke\<close> answers, with a page whose
  one element with a \<open>data-price\<close> attribute shows five prices.
\<close>

definition offline :: "nat env" where
  "offline =
     \<lparr> has_driver = False,
       driver_get = (\<lambda>url n. (None, n + 1)),
       session_get = (\<lambda>url n. (None, n + 1)) \<rparr>"

definition five_prices_page :: soup where
  "five_prices_page =
     \<lparr> select = (\<lambda>sel. if sel = ''[data-price]'' then [''$1 $2 $3 $4 $5''] else []),
       ld_json = [],
       all_text = ''$1 $2 $3 $4 $5'' \<rparr>"

definition five_at_walmart :: "nat env" where
  "five_at_walmart =
     \<lparr> has_driver = False,
       driver_get = (\<lambda>url n. (None, n + 1)),
       session_get =
         (\<lambda>url n. (if url = ''https://www.walmart.com/search?q=coke''
                    then Some (200, five_prices_page) else None, n + 1)) \<rparr>"

subsection \<open>\<open>ReferenceModel\<close> (region_model.py)\<close>












section \<open>Properties\<close>

subsection \<open>The category filter\<close>

lemma filter_prices_refines:
  "filter_prices_by_product_type prices item_name = spec_filter prices (spec_envelope (classify item_name))"
  by (simp add: filter_prices_by_product_type_def classify_def restrict_to_def Let_def)

lemma spec_filter_nonempty: "pool \<noteq> [] \<Longrightarrow> spec_filter pool e \<noteq> []"
  by (cases e) simp_all

text \<open>
  Claim C3. For every non-empty price pool and every item name the category filter returns
  a non-empty pool: where the restriction of the pool to the envelope of the item's
  category is empty, the pool itself is returned, and a category without an envelope
  leaves the pool as it is.
\<close>

theorem filter_never_empties:
  "prices \<noteq> [] \<Longrightarrow>
     filter_prices_by_product_type prices item_name \<noteq> []
     \<and> filter_prices_by_product_type prices item_name
         = (case spec_envelope (classify item_name) of
              None \<Rightarrow> prices
            | Some bounds \<Rightarrow>
                if restrict_to bounds prices = [] then prices else restrict_to bounds prices)"
  using spec_filter_nonempty[of prices "spec_envelope (classify item_name)"]
  by (simp add: filter_prices_refines split: option.splits)

lemma classify_coke: "classify ''Coke'' = beverage_single"
  by (simp add: classify_def lower_def lower_char_def any_in_def)

theorem filter_never_empties_witness:
  "[150, 199] \<noteq> ([] :: real list)
     \<and> filter_prices_by_product_type [150, 199] ''Coke'' = [150, 199]
     \<and> restrict_to (0.5, 5) [150, 199] = []"
  using filter_never_empties[of "[150, 199]" "''Coke''"]
  by (simp add: classify_coke restrict_to_def)

subsection \<open>Trimming and aggregation\<close>

lemma py_slice_trim:
  "0 < k \<Longrightarrow> 2 * k \<le> length xs \<Longrightarrow> py_slice xs (int k) (- int k) = drop k (take (length xs - k) xs)"
  by (simp add: py_slice_def py_bound_def nat_diff_distrib' max_def) 

lemma trim_outliers_eq:
  "trim_outliers xs =
     drop (if 4 < length xs then length xs div 5 else 0)
       (take (length xs - (if 4 < length xs then length xs div 5 else 0)) xs)"
proof (cases "4 < length xs")
  case True
  then have "0 < length xs div 5" and "2 * (length xs div 5) \<le> length xs"
    by arith+
  then show ?thesis
    using True by (simp add: trim_outliers_def py_slice_trim Let_def)
next
  case False
  then show ?thesis by (simp add: trim_outliers_def)
qed

lemma length_trim_outliers:
  "length (trim_outliers xs) = length xs - 2 * (if 4 < length xs then length xs div 5 else 0)"
  by (simp add: trim_outliers_eq)

lemma trim_outliers_nonempty: "xs \<noteq> [] \<Longrightarrow> trim_outliers xs \<noteq> []"
proof -
  assume "xs \<noteq> []"
  then have "0 < length xs - 2 * (if 4 < length xs then length xs div 5 else 0)"
    by (cases xs) (simp_all, arith)
  then show ?thesis
    using length_trim_outliers[of xs] by auto
qed



subsection \<open>Search-term expansion\<close>

lemma search_terms_head: "\<exists>rest. search_terms item_name = item_name # rest"
  by (simp add: search_terms_def Let_def)

text \<open>
  Claim C8. For every item name the expansion is a list of at least one and at most three
  terms whose first entry is the item name itself: it is the first three entries of
  \<open>search_terms\<close>, which begins with the name. The expansion is a function of the item
  name alone (it takes no other argument and no state), so equal names give equal lists.
\<close>

theorem expand_shape:
  "1 \<le> length (expand item_name) \<and> length (expand item_name) \<le> 3
   \<and> hd (expand item_name) = item_name
   \<and> (\<exists>rest. search_terms item_name = item_name # rest \<and> expand item_name = item_name # take 2 rest)"
proof -
  obtain rest where r: "search_terms item_name = item_name # rest"
    using search_terms_head by blast
  have e: "expand item_name = item_name # take 2 rest"
    by (simp add: expand_def r take_Cons')
  show ?thesis
    using r e by simp
qed

subsection \<open>Scenario A\<close>

lemma beverage_single_filter:
  "classify item_name = beverage_single \<Longrightarrow>
     filter_prices_by_product_type prices item_name = spec_filter prices (Some (0.50, 5.00))"
  by (simp add: filter_prices_refines)

text \<open>
  Claim C5. For the pool 1.89, 1.95, 1.99, 2.05, 2.10, 10.50 and an item name of category
  \<open>beverage_single\<close>, the filter keeps 1.89, 1.95, 1.99, 2.05, 2.10, trimming removes one
  element from each end and leaves 1.95, 1.99, 2.05, whose mean is 5.99 / 3, and the
  result is 2.00.
\<close>

theorem scenario_a:
  "classify item_name = beverage_single \<Longrightarrow>
     filter_prices_by_product_type [1.89, 1.95, 1.99, 2.05, 2.10, 10.50] item_name
       = [1.89, 1.95, 1.99, 2.05, 2.10]
     \<and> trim_outliers (sort [1.89, 1.95, 1.99, 2.05, 2.10])
       = [1.95, 1.99, 2.05]
     \<and> average [1.95, 1.99, 2.05] = Inr (5.99 / 3)
     \<and> process_prices [1.89, 1.95, 1.99, 2.05, 2.10, 10.50] item_name = Inr (Some 2.00)"
proof -
  assume c: "classify item_name = beverage_single"
  have f: "filter_prices_by_product_type [1.89, 1.95, 1.99, 2.05, 2.10, 10.50] item_name
       = [1.89, 1.95, 1.99, 2.05, 2.10]"
    using c by (simp add: beverage_single_filter restrict_to_def)
  have t: "trim_outliers (sort [1.89, 1.95, 1.99, 2.05, 2.10]) = [1.95, 1.99, 2.05 :: real]"
    by (simp add: trim_outliers_eq)
  have a: "average [1.95, 1.99, 2.05] = Inr (5.99 / 3)"
    by (simp add: average_def)
  have r: "py_round2 (5.99 / 3) = 2"
    by (simp add: py_round2_def round_half_even_def)
  have "process_prices [1.89, 1.95, 1.99, 2.05, 2.10, 10.50] item_name = Inr (Some 2.00)"
    unfolding process_prices_def f aggregate_def t a using r by simp
  with f t a show ?thesis by simp
qed

theorem scenario_a_witness:
  "classify ''coke'' = beverage_single
   \<and> process_prices [1.89, 1.95, 1.99, 2.05, 2.10, 10.50] ''coke'' = Inr (Some 2.00)"
  using scenario_a[of "''coke''"]
  by (simp add: classify_def lower_def lower_char_def any_in_def)

subsection \<open>The extractor\<close>

lemma admit_plausible: "list_all plausible prices \<Longrightarrow> list_all plausible (admit x prices)"
  by (simp add: admit_def plausible_def split: option.splits)

lemma admit_strings_plausible:
  "list_all plausible prices \<Longrightarrow> list_all plausible (admit_strings fl xs prices)"
  by (induction xs arbitrary: prices) (simp_all add: admit_plausible)

lemma scan_elements_plausible:
  "list_all plausible prices \<Longrightarrow> list_all plausible (scan_elements fl texts prices)"
  by (induction texts arbitrary: prices) (simp_all add: admit_strings_plausible)

lemma scan_selectors_plausible:
  "list_all plausible prices \<Longrightarrow> list_all plausible (scan_selectors fl sp sels prices)"
  by (induction sels arbitrary: prices) (simp_all add: scan_elements_plausible)

lemma scan_script_plausible:
  "list_all plausible prices \<Longrightarrow> list_all plausible (scan_script fl script prices)"
  by (simp add: scan_script_def admit_plausible split: option.splits json.splits)

lemma scan_scripts_plausible:
  "list_all plausible prices \<Longrightarrow> list_all plausible (scan_scripts fl scripts prices)"
  by (induction scripts arbitrary: prices) (simp_all add: scan_script_plausible)

lemma extract_plausible: "list_all plausible (extract_prices_from_soup fl sp)"
proof -
  have "list_all plausible (scan_selectors fl sp price_selectors [])"
    by (simp add: scan_selectors_plausible)
  then have "list_all plausible (scan_scripts fl (ld_json sp) (scan_selectors fl sp price_selectors []))"
    by (rule scan_scripts_plausible)
  then show ?thesis
    by (simp add: extract_prices_from_soup_def admit_strings_plausible)
qed

text \<open>
  Claim C4. Whatever the page and whatever \<open>float\<close> returns on its strings, every price
  in the extractor's output lies strictly between 0.50 and 200. The extractor is a total
  function: a value outside the bound, or a failed conversion, is skipped and nothing is
  raised. The bound is applied inside the extractor, in each of its three layers, so
  before the category filter sees the pool.
\<close>

theorem extracted_prices_plausible:
  "\<forall>p \<in> set (extract_prices_from_soup fl sp). 0.50 < p \<and> p < 200"
  using extract_plausible[of fl sp] by (simp add: list_all_iff plausible_def)

lemma offer_matches:
  "map (\<lambda>t. findall match_price (replace_char CHR '','' [] t)) (select offer_page ''[data-price]'')
     = [[''3.49''], [''1250.00'', ''0.50'']]"
  "findall match_dollar_price (all_text offer_page) = [''3.49'', ''0.50'', ''199.99'']"
  by code_simp+

lemma offer_floats:
  "decimal_float ''3.49'' = Some 3.49" "decimal_float ''1250.00'' = Some 1250"
  "decimal_float ''0.50'' = Some 0.5" "decimal_float ''199.99'' = Some 199.99"
  "decimal_float ''250.00'' = Some 250"
  by (simp_all add: decimal_float_def is_digit_def nat_of_digits_def digit_val_def)

lemma offer_select:
  "select offer_page sel
     = (if sel = ''[data-price]'' then [''$3.49'', ''was $1,250.00 now $0.50''] else [])"
  "ld_json offer_page
     = [None, Some (JObj [(''offers'', JObj [(''price'', JNum 2.99)])]),
        Some (JObj [(''price'', JStr ''250.00'')])]"
  by (simp_all add: offer_page_def)

lemma offer_page_prices:
  "extract_prices_from_soup decimal_float offer_page = [3.49, 2.99, 3.49, 199.99]"
  using offer_matches
  by (simp add: extract_prices_from_soup_def price_selectors_def offer_select offer_floats
      admit_def scan_script_def)

theorem extracted_prices_plausible_witness:
  "extract_prices_from_soup decimal_float offer_page = [3.49, 2.99, 3.49, 199.99]
   \<and> list_all plausible (extract_prices_from_soup decimal_float offer_page)"
  using extracted_prices_plausible[of decimal_float offer_page]
  by (simp add: offer_page_prices plausible_def)






subsection \<open>The fetch orchestrator\<close>

lemma call_source_shape:
  "\<exists>extra w'. call_source s args f (p, w, tr) = (p @ extra, w', tr @ [Called s args])"
  by (cases "f w") (simp add: call_source_def)

lemma run_sources_shape:
  "\<exists>extra w'. run_sources fl env t city (p, w, tr)
     = (p @ extra, w',
        tr @ [Called Walmart [t, city], Called Target [t, city], Called Instacart [t, city],
              Called Publix [t]])"
proof -
  obtain e1 w1 where 1: "call_source Walmart [t, city] (scrape_walmart fl env t city) (p, w, tr)
      = (p @ e1, w1, tr @ [Called Walmart [t, city]])"
    using call_source_shape by fastforce
  obtain e2 w2 where 2: "call_source Target [t, city] (scrape_target fl env t city)
      (p @ e1, w1, tr @ [Called Walmart [t, city]])
      = ((p @ e1) @ e2, w2, (tr @ [Called Walmart [t, city]]) @ [Called Target [t, city]])"
    using call_source_shape by fastforce
  obtain e3 w3 where 3: "call_source Instacart [t, city] (scrape_instacart fl env t city)
      ((p @ e1) @ e2, w2, (tr @ [Called Walmart [t, city]]) @ [Called Target [t, city]])
      = (((p @ e1) @ e2) @ e3, w3,
         ((tr @ [Called Walmart [t, city]]) @ [Called Target [t, city]]) @ [Called Instacart [t, city]])"
    using call_source_shape by fastforce
  obtain e4 w4 where 4: "call_source Publix [t] (scrape_publix_api fl env t)
      (((p @ e1) @ e2) @ e3, w3,
         ((tr @ [Called Walmart [t, city]]) @ [Called Target [t, city]]) @ [Called Instacart [t, city]])
      = ((((p @ e1) @ e2) @ e3) @ e4, w4,
         (((tr @ [Called Walmart [t, city]]) @ [Called Target [t, city]]) @ [Called Instacart [t, city]])
           @ [Called Publix [t]])"
    using call_source_shape by fastforce
  have "run_sources fl env t city (p, w, tr)
     = (p @ (e1 @ e2 @ e3 @ e4), w4,
        tr @ [Called Walmart [t, city], Called Target [t, city], Called Instacart [t, city],
              Called Publix [t]])"
    unfolding run_sources_def 1 2 3 4 by simp
  then show ?thesis by blast
qed

lemma try_terms_empty:
  "try_terms fl env city ts (p, w, tr) = (p', w', tr') \<Longrightarrow> p' = [] \<Longrightarrow>
     p = [] \<and> tr' = tr @ concat (map (term_events city) ts)"
proof (induction ts arbitrary: p w tr)
  case Nil
  then show ?case by simp
next
  case (Cons t ts)
  obtain extra w1 where rs: "run_sources fl env t city (p, w, tr @ [Trying t (length p)])
     = (p @ extra, w1,
        (tr @ [Trying t (length p)]) @ [Called Walmart [t, city], Called Target [t, city],
              Called Instacart [t, city], Called Publix [t]])"
    using run_sources_shape by fastforce
  show ?case
  proof (cases "5 \<le> length (p @ extra)")
    case True
    then have "p' = p @ extra"
      using Cons.prems(1) rs by simp
    then show ?thesis
      using True Cons.prems(2) by simp
  next
    case False
    then have "try_terms fl env city ts (p @ extra, w1,
        (tr @ [Trying t (length p)]) @ [Called Walmart [t, city], Called Target [t, city],
              Called Instacart [t, city], Called Publix [t]]) = (p', w', tr')"
      using Cons.prems(1) rs by simp
    from Cons.IH[OF this Cons.prems(2)]
    show ?thesis by (simp add: term_events_def)
  qed
qed

lemma try_terms_no_fallback:
  "filter is_fallback (trace_of (try_terms fl env city ts (p, w, tr))) = filter is_fallback tr"
proof (induction ts arbitrary: p w tr)
  case Nil
  then show ?case by (simp add: trace_of_def)
next
  case (Cons t ts)
  obtain extra w1 where rs: "run_sources fl env t city (p, w, tr @ [Trying t (length p)])
     = (p @ extra, w1,
        (tr @ [Trying t (length p)]) @ [Called Walmart [t, city], Called Target [t, city],
              Called Instacart [t, city], Called Publix [t]])"
    using run_sources_shape by fastforce
  show ?case
    using Cons.IH[of "p @ extra" w1 "(tr @ [Trying t (length p)]) @ [Called Walmart [t, city], Called Target [t, city],
              Called Instacart [t, city], Called Publix [t]]"]
    by (simp add: rs trace_of_def)
qed

lemma try_terms_early_start:
  "list_all early_start tr \<Longrightarrow> length p < 5 \<Longrightarrow>
     list_all early_start (trace_of (try_terms fl env city ts (p, w, tr)))"
proof (induction ts arbitrary: p w tr)
  case Nil
  then show ?case by (simp add: trace_of_def)
next
  case (Cons t ts)
  obtain extra w1 where rs: "run_sources fl env t city (p, w, tr @ [Trying t (length p)])
     = (p @ extra, w1,
        (tr @ [Trying t (length p)]) @ [Called Walmart [t, city], Called Target [t, city],
              Called Instacart [t, city], Called Publix [t]])"
    using run_sources_shape by fastforce
  have ok: "list_all early_start ((tr @ [Trying t (length p)]) @ [Called Walmart [t, city], Called Target [t, city],
              Called Instacart [t, city], Called Publix [t]])"
    using Cons.prems by simp
  show ?case
  proof (cases "5 \<le> length (p @ extra)")
    case True
    then show ?thesis
      using ok by (simp add: rs trace_of_def)
  next
    case False
    then have "length (p @ extra) < 5" by simp
    from Cons.IH[OF ok this, of w1] show ?thesis
      using False by (simp add: rs)
  qed
qed

lemma started_append: "started (tr @ tr') = started tr @ started tr'"
  by (induction tr rule: started.induct) simp_all

lemma try_terms_started:
  "\<exists>k. started (trace_of (try_terms fl env city ts (p, w, tr))) = started tr @ take k ts"
proof (induction ts arbitrary: p w tr)
  case Nil
  then show ?case by (simp add: trace_of_def)
next
  case (Cons t ts)
  obtain extra w1 where rs: "run_sources fl env t city (p, w, tr @ [Trying t (length p)])
     = (p @ extra, w1,
        (tr @ [Trying t (length p)]) @ [Called Walmart [t, city], Called Target [t, city],
              Called Instacart [t, city], Called Publix [t]])"
    using run_sources_shape by fastforce
  let ?tr = "(tr @ [Trying t (length p)]) @ [Called Walmart [t, city], Called Target [t, city],
              Called Instacart [t, city], Called Publix [t]]"
  have s: "started ?tr = started tr @ [t]"
    by (simp add: started_append)
  show ?case
  proof (cases "5 \<le> length (p @ extra)")
    case True
    then have "started (trace_of (try_terms fl env city (t # ts) (p, w, tr))) = started tr @ take 1 (t # ts)"
      using s by (simp add: rs trace_of_def)
    then show ?thesis by blast
  next
    case False
    obtain k where "started (trace_of (try_terms fl env city ts (p @ extra, w1, ?tr))) = started ?tr @ take k ts"
      using Cons.IH by blast
    then have "started (trace_of (try_terms fl env city (t # ts) (p, w, tr))) = started tr @ take (Suc k) (t # ts)"
      using False s by (simp add: rs)
    then show ?thesis by blast
  qed
qed

lemma process_prices_some:
  "pool \<noteq> [] \<Longrightarrow> \<exists>v. process_prices pool item_name = Inr (Some v)"
proof -
  assume "pool \<noteq> []"
  then have "filter_prices_by_product_type pool item_name \<noteq> []"
    using spec_filter_nonempty by (simp add: filter_prices_refines)
  then have "sort (filter_prices_by_product_type pool item_name) \<noteq> []"
    by (metis length_sort length_0_conv)
  then have "trim_outliers (sort (filter_prices_by_product_type pool item_name)) \<noteq> []"
    by (rule trim_outliers_nonempty)
  then show ?thesis
    using \<open>pool \<noteq> []\<close> by (simp add: process_prices_def aggregate_def average_def)
qed

lemma process_prices_none: "process_prices pool item_name = Inr None \<longleftrightarrow> pool = []"
proof
  assume "process_prices pool item_name = Inr None"
  then show "pool = []"
    using process_prices_some[of pool item_name] by (cases "pool = []") auto
next
  assume "pool = []"
  then show "process_prices pool item_name = Inr None"
    by (simp add: process_prices_def)
qed

lemma fetch_result:
  "fst (fetch_price_data fl env item_name city w)
     = process_prices (fst (collect_prices fl env item_name city w)) item_name"
  "trace_of (fetch_price_data fl env item_name city w)
     = trace_of (collect_prices fl env item_name city w)"
  by (simp_all add: fetch_price_data_def trace_of_def split: prod.splits)

lemma collect_empty_trace:
  assumes "fst (collect_prices fl env item_name city w) = []"
  shows "trace_of (collect_prices fl env item_name city w)
     = concat (map (term_events city) (expand item_name)) @ [Called GoogleShopping [item_name, city]]"
proof -
  obtain p1 w1 tr1 where a: "after_terms fl env item_name city w = (p1, w1, tr1)"
    by (cases "after_terms fl env item_name city w") auto
  have e: "p1 = []"
    using assms a by (auto simp: collect_prices_def split: prod.splits if_splits)
  have "tr1 = [] @ concat (map (term_events city) (expand item_name))"
    using try_terms_empty[of fl env city "expand item_name" "[]" w "[]" p1 w1 tr1] a e
    by (simp add: after_terms_def)
  then show ?thesis
    using a e by (simp add: collect_prices_def trace_of_def split: prod.splits)
qed

text \<open>
  Claim C1. The result of \<open>fetch_price_data\<close> is \<open>None\<close> if and only if the pool
  is empty when lines 335 to 395 are done; an empty pool then means that every term of the
  expansion was started with an empty pool, each of the four sources was called for it,
  and the fallback source was called last. For a non-empty pool the method returns a
  number: it neither returns \<open>None\<close> nor raises.
\<close>

theorem none_iff_pool_empty:
  "(fst (fetch_price_data fl env item_name city w) = Inr None
      \<longleftrightarrow> fst (collect_prices fl env item_name city w) = [])
   \<and> (fst (collect_prices fl env item_name city w) \<noteq> []
      \<longrightarrow> (\<exists>v. fst (fetch_price_data fl env item_name city w) = Inr (Some v)))
   \<and> (fst (collect_prices fl env item_name city w) = []
      \<longrightarrow> trace_of (fetch_price_data fl env item_name city w)
          = concat (map (term_events city) (expand item_name))
              @ [Called GoogleShopping [item_name, city]])"
  using process_prices_some[of "fst (collect_prices fl env item_name city w)" item_name]
    collect_empty_trace[of fl env item_name city w]
  by (simp add: fetch_result process_prices_none)

lemma offline_run:
  "collect_prices decimal_float offline ''coke'' ''miami'' 0
     = ([], 10,
        [Trying ''coke'' 0, Called Walmart [''coke'', ''miami''],
         Called Target [''coke'', ''miami''], Called Instacart [''coke'', ''miami''],
         Called Publix [''coke''],
         Trying ''coca cola 20 oz'' 0, Called Walmart [''coca cola 20 oz'', ''miami''],
         Called Target [''coca cola 20 oz'', ''miami''],
         Called Instacart [''coca cola 20 oz'', ''miami''], Called Publix [''coca cola 20 oz''],
         Trying ''coca cola can'' 0, Called Walmart [''coca cola can'', ''miami''],
         Called Target [''coca cola can'', ''miami''],
         Called Instacart [''coca cola can'', ''miami''], Called Publix [''coca cola can''],
         Called GoogleShopping [''coke'', ''miami'']])"
  by code_simp

lemma walmart_run:
  "collect_prices decimal_float five_at_walmart ''coke'' ''miami'' 0
     = ([1, 2, 3, 4, 5], 3,
        [Trying ''coke'' 0, Called Walmart [''coke'', ''miami''],
         Called Target [''coke'', ''miami''], Called Instacart [''coke'', ''miami''],
         Called Publix [''coke'']])"
  by code_simp

lemma walmart_after_terms:
  "after_terms decimal_float five_at_walmart ''coke'' ''miami'' 0
     = ([1, 2, 3, 4, 5], 3,
        [Trying ''coke'' 0, Called Walmart [''coke'', ''miami''],
         Called Target [''coke'', ''miami''], Called Instacart [''coke'', ''miami''],
         Called Publix [''coke'']])"
  by code_simp

lemma offline_after_terms:
  "fst (after_terms decimal_float offline ''coke'' ''miami'' 0) = []"
  "world_of (after_terms decimal_float offline ''coke'' ''miami'' 0) = 9"
  by code_simp+

lemma expand_coke: "expand ''coke'' = [''coke'', ''coca cola 20 oz'', ''coca cola can'']"
  by code_simp

theorem none_iff_pool_empty_witness:
  "fst (collect_prices decimal_float five_at_walmart ''coke'' ''miami'' 0) = [1, 2, 3, 4, 5]
   \<and> (\<exists>v. fst (fetch_price_data decimal_float five_at_walmart ''coke'' ''miami'' 0) = Inr (Some v))
   \<and> fst (collect_prices decimal_float offline ''coke'' ''miami'' 0) = []
   \<and> fst (fetch_price_data decimal_float offline ''coke'' ''miami'' 0) = Inr None
   \<and> trace_of (fetch_price_data decimal_float offline ''coke'' ''miami'' 0)
       = concat (map (term_events ''miami'') (expand ''coke''))
           @ [Called GoogleShopping [''coke'', ''miami'']]"
  using none_iff_pool_empty[of decimal_float five_at_walmart "''coke''" "''miami''" 0]
    none_iff_pool_empty[of decimal_float offline "''coke''" "''miami''" 0]
  by (simp add: walmart_run offline_run)

lemma trace_of_triple: "trace_of (a, b, c) = c"
  by (simp add: trace_of_def)

text \<open>
  Claim C6. No fallback call is made while the search terms are processed. The whole run
  makes exactly one fallback call if the pool is empty when the loop over the terms is
  left, and none otherwise. In the first case every term of the expansion has been
  started, the call comes last, its arguments are the original item name and the city,
  and what it returns is the pool; in the second case the fallback changes nothing.
\<close>

theorem fallback_once_when_empty:
  "filter is_fallback (trace_of (after_terms fl env item_name city w)) = []
   \<and> filter is_fallback (trace_of (collect_prices fl env item_name city w))
       = (if fst (after_terms fl env item_name city w) = []
          then [Called GoogleShopping [item_name, city]] else [])
   \<and> (fst (after_terms fl env item_name city w) = [] \<longrightarrow>
        started (trace_of (after_terms fl env item_name city w)) = expand item_name
        \<and> fst (collect_prices fl env item_name city w)
            = fst (scrape_google_shopping fl env item_name city
                     (world_of (after_terms fl env item_name city w)))
        \<and> trace_of (collect_prices fl env item_name city w)
            = trace_of (after_terms fl env item_name city w)
                @ [Called GoogleShopping [item_name, city]])
   \<and> (fst (after_terms fl env item_name city w) \<noteq> [] \<longrightarrow>
        collect_prices fl env item_name city w = after_terms fl env item_name city w)"
proof -
  obtain p1 w1 tr1 where a: "after_terms fl env item_name city w = (p1, w1, tr1)"
    by (cases "after_terms fl env item_name city w") auto
  obtain g w2 where s: "scrape_google_shopping fl env item_name city w1 = (g, w2)"
    by (cases "scrape_google_shopping fl env item_name city w1") auto
  have nf: "filter is_fallback tr1 = []"
    using try_terms_no_fallback[of fl env city "expand item_name" "[]" w "[]"] a
    by (simp add: after_terms_def trace_of_def)
  have c: "collect_prices fl env item_name city w
      = (if p1 = [] then (g, w2, tr1 @ [Called GoogleShopping [item_name, city]]) else (p1, w1, tr1))"
    by (simp add: collect_prices_def a s)
  have st: "started tr1 = expand item_name" if "p1 = []"
  proof -
    have "tr1 = [] @ concat (map (term_events city) (expand item_name))"
      using try_terms_empty[of fl env city "expand item_name" "[]" w "[]" p1 w1 tr1] a that
      by (simp add: after_terms_def)
    moreover have "started (concat (map (term_events city) ts)) = ts" for ts
      by (induction ts) (simp_all add: started_append term_events_def)
    ultimately show ?thesis by simp
  qed
  show ?thesis
    using nf st by (simp add: a c s trace_of_def world_of_def)
qed

theorem fallback_once_when_empty_witness:
  "fst (after_terms decimal_float offline ''coke'' ''miami'' 0) = []
   \<and> started (trace_of (after_terms decimal_float offline ''coke'' ''miami'' 0))
       = [''coke'', ''coca cola 20 oz'', ''coca cola can'']
   \<and> filter is_fallback (trace_of (collect_prices decimal_float offline ''coke'' ''miami'' 0))
       = [Called GoogleShopping [''coke'', ''miami'']]
   \<and> fst (after_terms decimal_float five_at_walmart ''coke'' ''miami'' 0) = [1, 2, 3, 4, 5]
   \<and> collect_prices decimal_float five_at_walmart ''coke'' ''miami'' 0
       = after_terms decimal_float five_at_walmart ''coke'' ''miami'' 0"
  using fallback_once_when_empty[of decimal_float offline "''coke''" "''miami''" 0]
    fallback_once_when_empty[of decimal_float five_at_walmart "''coke''" "''miami''" 0]
  by (simp add: offline_after_terms walmart_after_terms expand_coke)

text \<open>
  Claim C7. Whenever a search term is started, the pool holds fewer than 5 candidates; the
  terms started are an initial part of the expansion, in its order. So once the count has
  reached 5 at the end of a term, no further term is processed.
\<close>

theorem no_term_started_at_five:
  "(Trying t n \<in> set (trace_of (fetch_price_data fl env item_name city w)) \<longrightarrow> n < 5)
   \<and> (\<exists>k. started (trace_of (fetch_price_data fl env item_name city w))
          = take k (expand item_name))"
proof -
  obtain p1 w1 tr1 where a: "after_terms fl env item_name city w = (p1, w1, tr1)"
    by (cases "after_terms fl env item_name city w") auto
  have tr: "trace_of (fetch_price_data fl env item_name city w)
      = tr1 @ (if p1 = [] then [Called GoogleShopping [item_name, city]] else [])"
    by (simp add: fetch_result collect_prices_def a trace_of_triple split: prod.splits)
  have "list_all early_start tr1"
    using try_terms_early_start[of "[]" "[]" fl env city "expand item_name" w] a
    by (simp add: after_terms_def trace_of_def)
  then have "list_all early_start (trace_of (fetch_price_data fl env item_name city w))"
    by (simp add: tr)
  then have 1: "Trying t n \<in> set (trace_of (fetch_price_data fl env item_name city w)) \<longrightarrow> n < 5"
    by (auto simp: list_all_iff)
  obtain k where "started tr1 = take k (expand item_name)"
    using try_terms_started[of fl env city "expand item_name" "[]" w "[]"] a
    by (auto simp: after_terms_def trace_of_def)
  then have "started (trace_of (fetch_price_data fl env item_name city w)) = take k (expand item_name)"
    by (simp add: tr started_append)
  with 1 show ?thesis by blast
qed

theorem no_term_started_at_five_witness:
  "Trying ''coke'' 0 \<in> set (trace_of (fetch_price_data decimal_float five_at_walmart ''coke'' ''miami'' 0))
   \<and> (0::nat) < 5
   \<and> started (trace_of (fetch_price_data decimal_float five_at_walmart ''coke'' ''miami'' 0))
       = [''coke'']
   \<and> expand ''coke'' = [''coke'', ''coca cola 20 oz'', ''coca cola can'']"
  using no_term_started_at_five[of "''coke''" 0 decimal_float five_at_walmart "''coke''" "''miami''" 0]
  by (simp add: fetch_result walmart_run trace_of_triple expand_coke)

subsection \<open>The regional multiplier\<close>


lemma dist_sq: "(sqrt ((lat - a) ^ 2 + (lon - b) ^ 2)) ^ 2 = (lat - a) ^ 2 + (lon - b) ^ 2"
  by simp




















end
